theory Spec2Isabelle
  imports Main
begin

section \<open>Data model\<close>

text \<open>
  The entities of the webinar booking code. A TypeScript \<open>number\<close> that holds a seat
  count is modelled as a mathematical integer; the optional \<open>participants\<close> array of
  \<open>WebinarProps\<close> is an \<open>option\<close>. Dates are milliseconds since the epoch.

  A \<open>number\<close> is a double. Comparing two integers held in doubles is exact, and so
  is the sign of their difference. The difference itself, and its decimal print, are
  those of the integers as long as the operands and the result are safe integers
  (\<open>Number.isSafeInteger\<close>: at most \<open>Number.MAX_SAFE_INTEGER\<close> = \<open>2^53 - 1\<close> in absolute
  value); what is proved below about a computed difference or its print is stated for
  that range. An array's length is below \<open>2^32\<close>, a safe integer.
\<close>

definition MAX_SAFE_INTEGER :: int where
  "MAX_SAFE_INTEGER = 9007199254740991"

definition isSafeInteger :: "int \<Rightarrow> bool" where
  "isSafeInteger i = (- MAX_SAFE_INTEGER \<le> i \<and> i \<le> MAX_SAFE_INTEGER)"

record Webinar =
  id_W :: string
  organizerId :: string
  title :: string
  startDate :: int
  endDate :: int
  seats :: int
  participants :: "string list option"

record User =
  id_U :: string
  email :: string
  password :: string

record Participation =
  userId :: string
  webinarId :: string

record Email =
  to :: string
  subject :: string
  body :: string

record Request =
  req_webinarId :: string
  user :: User

text \<open>
  What \<open>execute\<close> can throw. \<open>NoSeatsAvailableException\<close> and
  \<open>AlreadyParticipatingException\<close> are the two subclasses of \<open>Error\<close> the use case
  declares; \<open>Error msg\<close> is an instance of the built-in class itself, built with
  \<open>new Error(msg)\<close>.
\<close>

datatype exn = Error string | NoSeatsAvailableException | AlreadyParticipatingException

datatype exn_class = Error_class | NoSeatsAvailableException_class | AlreadyParticipatingException_class

fun class_of :: "exn \<Rightarrow> exn_class" where
  "class_of (Error m) = Error_class"
| "class_of NoSeatsAvailableException = NoSeatsAvailableException_class"
| "class_of AlreadyParticipatingException = AlreadyParticipatingException_class"

fun message :: "exn \<Rightarrow> string" where
  "message (Error m) = m"
| "message NoSeatsAvailableException = ''No seats available for this webinar''"
| "message AlreadyParticipatingException = ''User is already participating in this webinar''"

section \<open>The Webinar entity\<close>

text \<open>\<open>this.props.participants || []\<close>: an absent list reads as the empty one.\<close>

definition participants_or_empty :: "Webinar \<Rightarrow> string list" where
  "participants_or_empty w = (case participants w of None \<Rightarrow> [] | Some ps \<Rightarrow> ps)"

definition hasTooManySeats :: "Webinar \<Rightarrow> bool" where
  "hasTooManySeats w = (seats w > 1000)"

definition hasNotEnoughSeats :: "Webinar \<Rightarrow> bool" where
  "hasNotEnoughSeats w = (seats w < 1)"

definition isOrganizer :: "Webinar \<Rightarrow> string \<Rightarrow> bool" where
  "isOrganizer w u = (organizerId w = u)"

definition hasAvailableSeats :: "Webinar \<Rightarrow> bool" where
  "hasAvailableSeats w = (int (length (participants_or_empty w)) < seats w)"

definition isParticipant :: "Webinar \<Rightarrow> string \<Rightarrow> bool" where
  "isParticipant w u = (u \<in> set (participants_or_empty w))"

text \<open>
  Modelled from the spec: \<open>Entity.update\<close> (src/shared/entity) is not among the
  sources. The spec describes it as an update that replaces a properties bag: the
  fields present in the argument overwrite the entity's, the others are kept.
  \<open>addParticipant\<close> passes a bag holding \<open>participants\<close> only.
\<close>

definition update_participants :: "string list \<Rightarrow> Webinar \<Rightarrow> Webinar" where
  "update_participants ps w = w\<lparr>participants := Some ps\<rparr>"

definition addParticipant :: "string \<Rightarrow> Webinar \<Rightarrow> Webinar" where
  "addParticipant u w = update_participants (participants_or_empty w @ [u]) w"

text \<open>
  \<open>this.props.seats - participants.length\<close>: the integer difference, which is the
  double's as long as both are safe integers.
\<close>

definition getRemainingSeats :: "Webinar \<Rightarrow> int" where
  "getRemainingSeats w = seats w - int (length (participants_or_empty w))"

section \<open>Repositories and mailer\<close>

text \<open>
  The state the use case works on: the arrays behind the in-memory repositories and
  the mailer's outbox.
\<close>

record world =
  webinars :: "Webinar list"
  participations :: "Participation list"
  users :: "User list"
  sentEmails :: "Email list"

text \<open>\<open>InMemoryWebinarRepository\<close>\<close>

definition create :: "Webinar \<Rightarrow> world \<Rightarrow> world" where
  "create w s = s\<lparr>webinars := webinars s @ [w]\<rparr>"

definition findById :: "string \<Rightarrow> world \<Rightarrow> Webinar option" where
  "findById i s = find (\<lambda>w. id_W w = i) (webinars s)"

fun replace_first :: "('a \<Rightarrow> bool) \<Rightarrow> 'a \<Rightarrow> 'a list \<Rightarrow> 'a list" where
  "replace_first P y [] = []"
| "replace_first P y (x # xs) = (if P x then y # xs else x # replace_first P y xs)"

definition update :: "Webinar \<Rightarrow> world \<Rightarrow> world" where
  "update w s = s\<lparr>webinars := replace_first (\<lambda>v. id_W v = id_W w) w (webinars s)\<rparr>"

text \<open>\<open>InMemoryUserRepository\<close>\<close>

definition findUserById :: "string \<Rightarrow> world \<Rightarrow> User option" where
  "findUserById i s = find (\<lambda>u. id_U u = i) (users s)"

text \<open>\<open>InMemoryParticipationRepository\<close>\<close>

definition findByWebinarId :: "string \<Rightarrow> world \<Rightarrow> Participation list" where
  "findByWebinarId i s = filter (\<lambda>p. webinarId p = i) (participations s)"

definition save :: "Participation \<Rightarrow> world \<Rightarrow> world" where
  "save p s = s\<lparr>participations := participations s @ [p]\<rparr>"

text \<open>
  Modelled from the spec: \<open>InMemoryMailer\<close> (src/core/adapters/in-memory-mailer) is
  not among the sources. The spec's notifier port is \<open>send(to, subject, body) -> ack\<close>;
  the tests read the messages back from \<open>sentEmails\<close>, so sending appends there.
\<close>

definition send :: "Email \<Rightarrow> world \<Rightarrow> world" where
  "send e s = s\<lparr>sentEmails := sentEmails s @ [e]\<rparr>"

section \<open>Numbers in template literals\<close>

text \<open>
  \<open>${remainingSeats}\<close> prints an integer in decimal, with a leading minus sign when it
  is negative. This is how a template literal prints a number that is a safe integer
  (a double of \<open>10^21\<close> or more prints with an exponent instead).
\<close>

fun digits :: "nat \<Rightarrow> string" where
  "digits n = (if n < 10 then [''0123456789'' ! n]
               else digits (n div 10) @ [''0123456789'' ! (n mod 10)])"

declare digits.simps [simp del]

definition string_of_int :: "int \<Rightarrow> string" where
  "string_of_int i = (if i < 0 then CHR ''-'' # digits (nat (- i)) else digits (nat i))"

text \<open>
  Reading decimal text back, to say what a printed number is: the value of a string of
  decimal digits, and what makes a string the decimal numeral of a natural number
  (digits only, at least one, no leading zero except in \<open>0\<close> itself).
\<close>

definition digit_of_char :: "char \<Rightarrow> nat" where
  "digit_of_char c = of_char c - 48"

definition decimal_value :: "string \<Rightarrow> nat" where
  "decimal_value cs = foldl (\<lambda>a c. 10 * a + digit_of_char c) 0 cs"

definition decimal_numeral :: "string \<Rightarrow> bool" where
  "decimal_numeral cs =
     (cs \<noteq> [] \<and> set cs \<subseteq> set ''0123456789'' \<and> (hd cs = CHR ''0'' \<longrightarrow> cs = ''0''))"

section \<open>The BookSeat use case\<close>

definition notification :: "User \<Rightarrow> Webinar \<Rightarrow> int \<Rightarrow> Email" where
  "notification organizer w remainingSeats =
     \<lparr>to = email organizer,
      subject = ''New participant in your webinar: '' @ title w,
      body = ''A new participant has registered for your webinar \"'' @ title w
             @ ''\". There are now '' @ string_of_int remainingSeats
             @ '' seats remaining.''\<rparr>"

text \<open>
  \<open>execute\<close> returns what the promise settles to (\<open>Inl\<close> the thrown value, \<open>Inr ()\<close> on
  completion) with the state it leaves behind. This is one call running from start to
  end with no other call in between.
\<close>

definition execute :: "Request \<Rightarrow> world \<Rightarrow> (exn + unit) \<times> world" where
  "execute req s =
     (case findById (req_webinarId req) s of
        None \<Rightarrow> (Inl (Error ''Webinar not found''), s)
      | Some webinar \<Rightarrow>
          let ps = findByWebinarId (req_webinarId req) s;
              isAlreadyParticipating = (\<exists>p \<in> set ps. userId p = id_U (user req))
          in if isAlreadyParticipating then (Inl AlreadyParticipatingException, s)
             else if int (length ps) \<ge> seats webinar then (Inl NoSeatsAvailableException, s)
             else
               let participation = \<lparr>userId = id_U (user req), webinarId = req_webinarId req\<rparr>;
                   s1 = save participation s
               in (case findUserById (organizerId webinar) s1 of
                     None \<Rightarrow> (Inr (), s1)
                   | Some organizer \<Rightarrow>
                       let remainingSeats = seats webinar - int (length ps) - 1
                       in (Inr (), send (notification organizer webinar remainingSeats) s1)))"


text \<open>A caller making its calls one after the other, catching what each one throws.\<close>

fun run :: "Request list \<Rightarrow> world \<Rightarrow> world" where
  "run [] s = s"
| "run (r # rs) s = run rs (snd (execute r s))"

text \<open>The same, keeping every outcome: \<open>n\<close> calls with the same request.\<close>

fun attempts :: "nat \<Rightarrow> Request \<Rightarrow> world \<Rightarrow> (exn + unit) list \<times> world" where
  "attempts 0 req s = ([], s)"
| "attempts (Suc n) req s =
     (let (r, s1) = execute req s; (rs, s2) = attempts n req s1 in (r # rs, s2))"

text \<open>The committed registrations of one (webinar, user) pair.\<close>

definition registrations_of :: "string \<Rightarrow> string \<Rightarrow> world \<Rightarrow> Participation list" where
  "registrations_of wid uid s = filter (\<lambda>p. userId p = uid) (findByWebinarId wid s)"

section \<open>Concurrent calls\<close>

text \<open>
  \<open>execute\<close> is an \<open>async\<close> function: it runs up to its next \<open>await\<close>, hands control
  back to the event loop, and resumes later with the awaited value. Between two of its
  \<open>await\<close>s another call of \<open>execute\<close> may run. A \<open>task\<close> is a call suspended at one of
  its five \<open>await\<close>s, holding the local variables it has bound so far; \<open>resume\<close> runs it
  to the next one. The repository methods are \<open>async\<close> too, and their bodies run when
  they are called: the value a task is waiting for was read then.
\<close>

datatype task =
    Called Request
  | AwaitWebinar Request "Webinar option"
  | AwaitParticipations Request Webinar "Participation list"
  | AwaitSave Request Webinar "Participation list"
  | AwaitOrganizer Request Webinar "Participation list" "User option"
  | AwaitSend
  | Settled "exn + unit"

fun resume :: "task \<Rightarrow> world \<Rightarrow> task \<times> world" where
  "resume (Called req) s = (AwaitWebinar req (findById (req_webinarId req) s), s)"
| "resume (AwaitWebinar req None) s = (Settled (Inl (Error ''Webinar not found'')), s)"
| "resume (AwaitWebinar req (Some webinar)) s =
     (AwaitParticipations req webinar (findByWebinarId (req_webinarId req) s), s)"
| "resume (AwaitParticipations req webinar ps) s =
     (if \<exists>p \<in> set ps. userId p = id_U (user req) then (Settled (Inl AlreadyParticipatingException), s)
      else if int (length ps) \<ge> seats webinar then (Settled (Inl NoSeatsAvailableException), s)
      else (AwaitSave req webinar ps,
            save \<lparr>userId = id_U (user req), webinarId = req_webinarId req\<rparr> s))"
| "resume (AwaitSave req webinar ps) s =
     (AwaitOrganizer req webinar ps (findUserById (organizerId webinar) s), s)"
| "resume (AwaitOrganizer req webinar ps None) s = (Settled (Inr ()), s)"
| "resume (AwaitOrganizer req webinar ps (Some organizer)) s =
     (AwaitSend, send (notification organizer webinar (seats webinar - int (length ps) - 1)) s)"
| "resume AwaitSend s = (Settled (Inr ()), s)"
| "resume (Settled r) s = (Settled r, s)"

text \<open>One call run alone: six resumptions take it from the call to its settlement.\<close>

definition run_alone :: "Request \<Rightarrow> world \<Rightarrow> task \<times> world" where
  "run_alone req s = ((\<lambda>(t, s). resume t s) ^^ 6) (Called req, s)"

text \<open>
  Several calls in flight: the schedule names, turn by turn, the task the event loop
  resumes.
\<close>

fun interleave :: "nat list \<Rightarrow> task list \<Rightarrow> world \<Rightarrow> task list \<times> world" where
  "interleave [] ts s = (ts, s)"
| "interleave (i # sched) ts s =
     (if i < length ts
      then (let (t1, s1) = resume (ts ! i) s in interleave sched (ts[i := t1]) s1)
      else interleave sched ts s)"

section \<open>The fixtures of the test suite\<close>

text \<open>
  The users, the webinar and the starting states that the use case's test suite builds
  in its \<open>beforeEach\<close> blocks. \<open>new Date('2024-02-01')\<close> is midnight UTC of that day.
\<close>

definition test_user :: User where
  "test_user = \<lparr>id_U = ''user-1'', email = ''user@test.com'', password = ''password123''\<rparr>"

definition test_organizer :: User where
  "test_organizer =
     \<lparr>id_U = ''organizer-id'', email = ''organizer@test.com'', password = ''password123''\<rparr>"

definition test_webinar :: Webinar where
  "test_webinar =
     \<lparr>id_W = ''webinar-1'', organizerId = ''organizer-id'', title = ''Test Webinar'',
      startDate = 1706745600000, endDate = 1706745600000, seats = 2, participants = None\<rparr>"

definition fresh_world :: world where
  "fresh_world = \<lparr>webinars = [], participations = [], users = [test_organizer], sentEmails = []\<rparr>"

definition happy_world :: world where
  "happy_world = create test_webinar fresh_world"

definition full_world :: world where
  "full_world =
     save \<lparr>userId = ''existing-user-2'', webinarId = ''webinar-1''\<rparr>
       (save \<lparr>userId = ''existing-user-1'', webinarId = ''webinar-1''\<rparr>
          (create test_webinar fresh_world))"

definition already_world :: world where
  "already_world = save \<lparr>userId = ''user-1'', webinarId = ''webinar-1''\<rparr> (create test_webinar fresh_world)"

definition orphan_world :: world where
  "orphan_world = create test_webinar (fresh_world\<lparr>users := []\<rparr>)"

text \<open>A webinar with a single seat, taken by the test user.\<close>

definition taken_world :: world where
  "taken_world =
     save \<lparr>userId = ''user-1'', webinarId = ''webinar-1''\<rparr>
       (create (test_webinar\<lparr>seats := 1\<rparr>) fresh_world)"

definition test_request :: Request where
  "test_request = \<lparr>req_webinarId = ''webinar-1'', user = test_user\<rparr>"

definition missing_request :: Request where
  "missing_request = \<lparr>req_webinarId = ''non-existent-id'', user = test_user\<rparr>"

text \<open>
  Inputs beyond the suite's: a second and a third user, their requests for the suite's
  webinar, and a state where that webinar has a single seat and no participation yet.
\<close>

definition second_user :: User where
  "second_user = \<lparr>id_U = ''user-2'', email = ''user2@test.com'', password = ''password123''\<rparr>"

definition third_user :: User where
  "third_user = \<lparr>id_U = ''user-3'', email = ''user3@test.com'', password = ''password123''\<rparr>"

definition second_request :: Request where
  "second_request = \<lparr>req_webinarId = ''webinar-1'', user = second_user\<rparr>"

definition third_request :: Request where
  "third_request = \<lparr>req_webinarId = ''webinar-1'', user = third_user\<rparr>"

text \<open>A webinar whose single seat is taken, by the test user.\<close>

definition crowded_webinar :: Webinar where
  "crowded_webinar = test_webinar\<lparr>seats := 1, participants := Some [''user-1'']\<rparr>"

definition single_seat_world :: world where
  "single_seat_world = create (test_webinar\<lparr>seats := 1\<rparr>) fresh_world"

text \<open>
  Two calls made together, as in \<open>Promise.all([execute(a), execute(b)])\<close>: each runs to
  its first \<open>await\<close> when it is called, and the event loop then resumes them in turn.
\<close>

definition alternate :: "nat list" where
  "alternate = [0, 1, 0, 1, 0, 1, 0, 1, 0, 1, 0, 1]"

lemmas fixture_defs =
  test_user_def test_organizer_def test_webinar_def fresh_world_def happy_world_def
  full_world_def already_world_def orphan_world_def test_request_def missing_request_def
  second_user_def third_user_def second_request_def third_request_def single_seat_world_def
  create_def save_def send_def findById_def findByWebinarId_def findUserById_def

section \<open>Facts about one call\<close>

lemma run_alone_execute: "run_alone req s = (Settled (fst (execute req s)), snd (execute req s))"
  by (simp add: run_alone_def execute_def numeral_eq_Suc Let_def split: option.splits)

lemma findUserById_save [simp]: "findUserById i (save p s) = findUserById i s"
  by (simp add: findUserById_def save_def)

lemma execute_not_found:
  "findById (req_webinarId req) s = None \<Longrightarrow> execute req s = (Inl (Error ''Webinar not found''), s)"
  by (simp add: execute_def)

lemma execute_already:
  "findById (req_webinarId req) s = Some w \<Longrightarrow>
   \<exists>p \<in> set (findByWebinarId (req_webinarId req) s). userId p = id_U (user req) \<Longrightarrow>
   execute req s = (Inl AlreadyParticipatingException, s)"
  by (simp add: execute_def)

lemma execute_full:
  "findById (req_webinarId req) s = Some w \<Longrightarrow>
   \<not> (\<exists>p \<in> set (findByWebinarId (req_webinarId req) s). userId p = id_U (user req)) \<Longrightarrow>
   seats w \<le> int (length (findByWebinarId (req_webinarId req) s)) \<Longrightarrow>
   execute req s = (Inl NoSeatsAvailableException, s)"
  by (simp add: execute_def)

lemma execute_booked_silent:
  "findById (req_webinarId req) s = Some w \<Longrightarrow>
   \<not> (\<exists>p \<in> set (findByWebinarId (req_webinarId req) s). userId p = id_U (user req)) \<Longrightarrow>
   int (length (findByWebinarId (req_webinarId req) s)) < seats w \<Longrightarrow>
   findUserById (organizerId w) s = None \<Longrightarrow>
   execute req s = (Inr (), save \<lparr>userId = id_U (user req), webinarId = req_webinarId req\<rparr> s)"
  by (simp add: execute_def)

lemma execute_booked_notified:
  "findById (req_webinarId req) s = Some w \<Longrightarrow>
   \<not> (\<exists>p \<in> set (findByWebinarId (req_webinarId req) s). userId p = id_U (user req)) \<Longrightarrow>
   int (length (findByWebinarId (req_webinarId req) s)) < seats w \<Longrightarrow>
   findUserById (organizerId w) s = Some organizer \<Longrightarrow>
   execute req s =
     (Inr (), send (notification organizer w
                      (seats w - int (length (findByWebinarId (req_webinarId req) s)) - 1))
                (save \<lparr>userId = id_U (user req), webinarId = req_webinarId req\<rparr> s))"
  by (simp add: execute_def)

text \<open>The five ways a call can end, as a case rule.\<close>

lemma execute_cases [case_names not_found already full booked_silent booked_notified]:
  assumes "findById (req_webinarId req) s = None \<Longrightarrow> P"
    and "\<And>w. findById (req_webinarId req) s = Some w \<Longrightarrow>
           \<exists>p \<in> set (findByWebinarId (req_webinarId req) s). userId p = id_U (user req) \<Longrightarrow> P"
    and "\<And>w. findById (req_webinarId req) s = Some w \<Longrightarrow>
           \<not> (\<exists>p \<in> set (findByWebinarId (req_webinarId req) s). userId p = id_U (user req)) \<Longrightarrow>
           seats w \<le> int (length (findByWebinarId (req_webinarId req) s)) \<Longrightarrow> P"
    and "\<And>w. findById (req_webinarId req) s = Some w \<Longrightarrow>
           \<not> (\<exists>p \<in> set (findByWebinarId (req_webinarId req) s). userId p = id_U (user req)) \<Longrightarrow>
           int (length (findByWebinarId (req_webinarId req) s)) < seats w \<Longrightarrow>
           findUserById (organizerId w) s = None \<Longrightarrow> P"
    and "\<And>w organizer. findById (req_webinarId req) s = Some w \<Longrightarrow>
           \<not> (\<exists>p \<in> set (findByWebinarId (req_webinarId req) s). userId p = id_U (user req)) \<Longrightarrow>
           int (length (findByWebinarId (req_webinarId req) s)) < seats w \<Longrightarrow>
           findUserById (organizerId w) s = Some organizer \<Longrightarrow> P"
  shows P
proof (cases "findById (req_webinarId req) s")
  case None
  then show ?thesis by (rule assms(1))
next
  case (Some w)
  show ?thesis
  proof (cases "\<exists>p \<in> set (findByWebinarId (req_webinarId req) s). userId p = id_U (user req)")
    case True
    with Some show ?thesis by (rule assms(2))
  next
    case dup: False
    show ?thesis
    proof (cases "seats w \<le> int (length (findByWebinarId (req_webinarId req) s))")
      case True
      with Some dup show ?thesis by (rule assms(3))
    next
      case False
      then have room: "int (length (findByWebinarId (req_webinarId req) s)) < seats w" by simp
      show ?thesis
      proof (cases "findUserById (organizerId w) s")
        case None
        with Some dup room show ?thesis by (rule assms(4))
      next
        case (Some organizer)
        with \<open>findById (req_webinarId req) s = Some w\<close> dup room show ?thesis by (rule assms(5))
      qed
    qed
  qed
qed

lemma execute_webinars: "webinars (snd (execute req s)) = webinars s"
  by (cases req s rule: execute_cases)
     (simp_all add: execute_not_found execute_already execute_full execute_booked_silent
        execute_booked_notified save_def send_def)

lemma execute_users: "users (snd (execute req s)) = users s"
  by (cases req s rule: execute_cases)
     (simp_all add: execute_not_found execute_already execute_full execute_booked_silent
        execute_booked_notified save_def send_def)

lemma execute_findById: "findById i (snd (execute req s)) = findById i s"
  by (simp add: findById_def execute_webinars)

lemma execute_failure_unchanged: "fst (execute req s) = Inl e \<Longrightarrow> snd (execute req s) = s"
  by (cases req s rule: execute_cases)
     (simp_all add: execute_not_found execute_already execute_full execute_booked_silent
        execute_booked_notified)

lemma execute_success_participations:
  "fst (execute req s) = Inr u \<Longrightarrow>
   participations (snd (execute req s)) =
     participations s @ [\<lparr>userId = id_U (user req), webinarId = req_webinarId req\<rparr>]"
  by (cases req s rule: execute_cases)
     (simp_all add: execute_not_found execute_already execute_full execute_booked_silent
        execute_booked_notified save_def send_def)

lemma execute_success_iff:
  "findById (req_webinarId req) s = Some w \<Longrightarrow>
   (\<exists>u. fst (execute req s) = Inr u) \<longleftrightarrow>
     (\<not> (\<exists>p \<in> set (findByWebinarId (req_webinarId req) s). userId p = id_U (user req))
      \<and> int (length (findByWebinarId (req_webinarId req) s)) < seats w)"
  by (cases req s rule: execute_cases)
     (simp_all add: execute_not_found execute_already execute_full execute_booked_silent
        execute_booked_notified)


lemma digits_small: "n < 10 \<Longrightarrow> digits n = [''0123456789'' ! n]"
  by (simp add: digits.simps)

lemma string_of_int_1: "string_of_int 1 = ''1''"
  by (simp add: string_of_int_def digits_small)

lemma string_of_int_0: "string_of_int 0 = ''0''"
  by (simp add: string_of_int_def digits_small)

text \<open>The print of a natural number is its decimal numeral.\<close>

lemma digit_of_char_nth: "d < 10 \<Longrightarrow> digit_of_char (''0123456789'' ! d) = d"
proof -
  assume "d < 10"
  then consider "d = 0" | "d = 1" | "d = 2" | "d = 3" | "d = 4" | "d = 5" | "d = 6" | "d = 7"
    | "d = 8" | "d = 9"
    by atomize_elim arith
  then show ?thesis
    by cases (simp_all add: digit_of_char_def)
qed

lemma nth_digit_in_set: "d < 10 \<Longrightarrow> ''0123456789'' ! d \<in> set ''0123456789''"
  by (rule nth_mem) simp

lemma nth_digit_zero: "d < 10 \<Longrightarrow> (''0123456789'' ! d = CHR ''0'') = (d = 0)"
proof -
  assume "d < 10"
  then consider "d = 0" | "d = 1" | "d = 2" | "d = 3" | "d = 4" | "d = 5" | "d = 6" | "d = 7"
    | "d = 8" | "d = 9"
    by atomize_elim arith
  then show ?thesis
    by cases simp_all
qed

lemma digits_not_empty: "digits n \<noteq> []"
  by (subst digits.simps) simp

lemma decimal_value_snoc: "decimal_value (cs @ [c]) = 10 * decimal_value cs + digit_of_char c"
  by (simp add: decimal_value_def)

lemma decimal_value_digits: "decimal_value (digits n) = n"
proof (induction n rule: digits.induct)
  case (1 n)
  show ?case
  proof (cases "n < 10")
    case True
    then have "digits n = [''0123456789'' ! n]" by (simp add: digits_small)
    then show ?thesis using True by (simp add: decimal_value_def digit_of_char_nth)
  next
    case False
    then have unfold: "digits n = digits (n div 10) @ [''0123456789'' ! (n mod 10)]"
      by (subst digits.simps) simp
    have "decimal_value (digits n) = 10 * (n div 10) + n mod 10"
      using "1.IH" [OF False] by (simp add: unfold decimal_value_snoc digit_of_char_nth)
    then show ?thesis by simp
  qed
qed

lemma set_digits: "set (digits n) \<subseteq> set ''0123456789''"
proof (induction n rule: digits.induct)
  case (1 n)
  show ?case
  proof (cases "n < 10")
    case True
    then have "digits n = [''0123456789'' ! n]" by (simp add: digits_small)
    then show ?thesis using nth_digit_in_set [OF True] by simp
  next
    case False
    then have unfold: "digits n = digits (n div 10) @ [''0123456789'' ! (n mod 10)]"
      by (subst digits.simps) simp
    have "''0123456789'' ! (n mod 10) \<in> set ''0123456789''"
      by (rule nth_digit_in_set) simp
    then show ?thesis using "1.IH" [OF False] by (simp add: unfold)
  qed
qed

lemma hd_digits_zero: "hd (digits n) = CHR ''0'' \<Longrightarrow> n = 0"
proof (induction n rule: digits.induct)
  case (1 n)
  show ?case
  proof (cases "n < 10")
    case True
    then have "digits n = [''0123456789'' ! n]" by (simp add: digits_small)
    then show ?thesis using "1.prems" nth_digit_zero [OF True] by simp
  next
    case False
    then have unfold: "digits n = digits (n div 10) @ [''0123456789'' ! (n mod 10)]"
      by (subst digits.simps) simp
    then have "hd (digits n) = hd (digits (n div 10))"
      by (simp add: digits_not_empty)
    then have "n div 10 = 0" using "1.IH" [OF False] "1.prems" by simp
    then show ?thesis using False by simp
  qed
qed

lemma decimal_numeral_digits: "decimal_numeral (digits n)"
proof -
  have "hd (digits n) = CHR ''0'' \<longrightarrow> digits n = ''0''"
  proof
    assume "hd (digits n) = CHR ''0''"
    then have "n = 0" by (rule hd_digits_zero)
    then show "digits n = ''0''" by (simp add: digits_small)
  qed
  then show ?thesis
    unfolding decimal_numeral_def using digits_not_empty set_digits by blast
qed

lemma string_of_int_nonneg:
  "0 \<le> i \<Longrightarrow> decimal_numeral (string_of_int i) \<and> int (decimal_value (string_of_int i)) = i"
  by (simp add: string_of_int_def decimal_numeral_digits decimal_value_digits)

section \<open>The suite's scenarios, replayed\<close>

lemma scenario_happy_path:
  "execute test_request happy_world =
     (Inr (),
      happy_world\<lparr>participations := [\<lparr>userId = ''user-1'', webinarId = ''webinar-1''\<rparr>],
        sentEmails := [\<lparr>to = ''organizer@test.com'',
          subject = ''New participant in your webinar: Test Webinar'',
          body = ''A new participant has registered for your webinar \"Test Webinar\". There are now 1 seats remaining.''\<rparr>]\<rparr>)"
  by (simp add: execute_def fixture_defs notification_def string_of_int_1)

lemma scenario_no_seats: "execute test_request full_world = (Inl NoSeatsAvailableException, full_world)"
  by (simp add: execute_def fixture_defs)

lemma scenario_already: "execute test_request already_world = (Inl AlreadyParticipatingException, already_world)"
  by (simp add: execute_def fixture_defs)

lemma scenario_not_found: "execute missing_request fresh_world = (Inl (Error ''Webinar not found''), fresh_world)"
  by (simp add: execute_def fixture_defs)

lemma scenario_orphan:
  "execute test_request orphan_world =
     (Inr (), orphan_world\<lparr>participations := [\<lparr>userId = ''user-1'', webinarId = ''webinar-1''\<rparr>]\<rparr>)"
  by (simp add: execute_def fixture_defs)

section \<open>Failures leave no trace\<close>

text \<open>
  C4. A call of \<open>execute\<close> that throws (webinar not found, already participating, no seats
  available) leaves the whole state as it found it: in particular the participations of
  the webinar and the mailer's outbox are unchanged. Those three are the only values it
  throws.
\<close>

theorem C4_failure_no_side_effects:
  assumes "fst (execute req s) = Inl e"
  shows "snd (execute req s) = s
    \<and> findByWebinarId (req_webinarId req) (snd (execute req s)) = findByWebinarId (req_webinarId req) s
    \<and> sentEmails (snd (execute req s)) = sentEmails s
    \<and> (e = Error ''Webinar not found'' \<or> e = AlreadyParticipatingException \<or> e = NoSeatsAvailableException)"
proof -
  have same: "snd (execute req s) = s"
    using assms by (rule execute_failure_unchanged)
  have kinds: "e = Error ''Webinar not found'' \<or> e = AlreadyParticipatingException \<or> e = NoSeatsAvailableException"
    using assms
    by (cases req s rule: execute_cases)
       (simp_all add: execute_not_found execute_already execute_full execute_booked_silent
          execute_booked_notified)
  from same kinds show ?thesis by simp
qed

theorem C4_witness:
  "fst (execute test_request full_world) = Inl NoSeatsAvailableException
   \<and> snd (execute test_request full_world) = full_world
   \<and> length (findByWebinarId ''webinar-1'' (snd (execute test_request full_world))) = 2
   \<and> sentEmails (snd (execute test_request full_world)) = []"
proof -
  have h: "fst (execute test_request full_world) = Inl NoSeatsAvailableException"
    by (simp add: scenario_no_seats)
  have "snd (execute test_request full_world) = full_world"
    using C4_failure_no_side_effects [OF h] by simp
  moreover have "length (findByWebinarId ''webinar-1'' full_world) = 2" "sentEmails full_world = []"
    by (simp_all add: fixture_defs)
  ultimately show ?thesis using h by simp
qed

section \<open>The order of the checks\<close>

text \<open>
  C5. When the webinar exists, \<open>execute\<close> throws \<open>AlreadyParticipatingException\<close> exactly
  when one of the webinar's participations carries the caller's user id. That check
  comes first: a caller who already participates in a full webinar gets
  \<open>AlreadyParticipatingException\<close>. A caller who does not participate yet gets
  \<open>NoSeatsAvailableException\<close> exactly when the number of participations is greater than
  or equal to the webinar's seats.
\<close>

theorem C5_check_order:
  assumes "findById (req_webinarId req) s = Some w"
  shows "(fst (execute req s) = Inl AlreadyParticipatingException
            \<longleftrightarrow> (\<exists>p \<in> set (findByWebinarId (req_webinarId req) s). userId p = id_U (user req)))
    \<and> ((\<exists>p \<in> set (findByWebinarId (req_webinarId req) s). userId p = id_U (user req))
          \<and> seats w \<le> int (length (findByWebinarId (req_webinarId req) s))
        \<longrightarrow> fst (execute req s) = Inl AlreadyParticipatingException)
    \<and> (\<not> (\<exists>p \<in> set (findByWebinarId (req_webinarId req) s). userId p = id_U (user req))
        \<longrightarrow> (fst (execute req s) = Inl NoSeatsAvailableException
              \<longleftrightarrow> seats w \<le> int (length (findByWebinarId (req_webinarId req) s))))"
  using assms
  by (cases req s rule: execute_cases)
     (simp_all add: execute_not_found execute_already execute_full execute_booked_silent
        execute_booked_notified)

theorem C5_witness:
  "findById (req_webinarId test_request) taken_world = Some (test_webinar\<lparr>seats := 1\<rparr>)
   \<and> seats (test_webinar\<lparr>seats := 1\<rparr>) \<le> int (length (findByWebinarId (req_webinarId test_request) taken_world))
   \<and> fst (execute test_request taken_world) = Inl AlreadyParticipatingException
   \<and> fst (execute test_request full_world) = Inl NoSeatsAvailableException"
proof -
  have h: "findById (req_webinarId test_request) taken_world = Some (test_webinar\<lparr>seats := 1\<rparr>)"
    by (simp add: taken_world_def fixture_defs)
  have dup: "\<exists>p \<in> set (findByWebinarId (req_webinarId test_request) taken_world).
               userId p = id_U (user test_request)"
    by (simp add: taken_world_def fixture_defs)
  have full: "seats (test_webinar\<lparr>seats := 1\<rparr>)
                \<le> int (length (findByWebinarId (req_webinarId test_request) taken_world))"
    by (simp add: taken_world_def fixture_defs)
  have h2: "findById (req_webinarId test_request) full_world = Some test_webinar"
    by (simp add: fixture_defs)
  have nodup: "\<not> (\<exists>p \<in> set (findByWebinarId (req_webinarId test_request) full_world).
               userId p = id_U (user test_request))"
    by (simp add: fixture_defs)
  have full2: "seats test_webinar \<le> int (length (findByWebinarId (req_webinarId test_request) full_world))"
    by (simp add: fixture_defs)
  from C5_check_order [OF h] dup full
  have "fst (execute test_request taken_world) = Inl AlreadyParticipatingException" by blast
  moreover from C5_check_order [OF h2] nodup full2
  have "fst (execute test_request full_world) = Inl NoSeatsAvailableException" by blast
  ultimately show ?thesis using h full by blast
qed

section \<open>A missing webinar\<close>

text \<open>
  C6, as the specification states it, fails: a call for a webinar id that the repository
  does not hold throws, but the value thrown is an instance of the built-in \<open>Error\<close>
  class, not of a class of its own as the other two failures are.
\<close>

theorem C6_counterexample:
  "fst (execute missing_request fresh_world) = Inl (Error ''Webinar not found'')
   \<and> class_of (Error ''Webinar not found'') = Error_class"
  by (simp add: scenario_not_found)

text \<open>
  C6, amended. When no webinar with the given id is in the repository, \<open>execute\<close> throws
  a plain \<open>Error\<close> whose message is \<open>Webinar not found\<close> and changes nothing. A caller can
  tell it from the other two failures by its class and by its message, and \<open>execute\<close>
  throws a plain \<open>Error\<close> in no other case.
\<close>

theorem C6_not_found_plain_error:
  "(findById (req_webinarId req) s = None \<longrightarrow>
      execute req s = (Inl (Error ''Webinar not found''), s))
   \<and> (class_of (projl (fst (execute req s))) = Error_class \<and> isl (fst (execute req s))
        \<longrightarrow> findById (req_webinarId req) s = None)
   \<and> class_of (Error ''Webinar not found'') \<noteq> class_of NoSeatsAvailableException
   \<and> class_of (Error ''Webinar not found'') \<noteq> class_of AlreadyParticipatingException
   \<and> message (Error ''Webinar not found'') \<noteq> message NoSeatsAvailableException
   \<and> message (Error ''Webinar not found'') \<noteq> message AlreadyParticipatingException"
proof -
  have a: "findById (req_webinarId req) s = None \<longrightarrow>
      execute req s = (Inl (Error ''Webinar not found''), s)"
    by (simp add: execute_not_found)
  have b: "class_of (projl (fst (execute req s))) = Error_class \<and> isl (fst (execute req s))
          \<longrightarrow> findById (req_webinarId req) s = None"
    by (cases req s rule: execute_cases)
       (simp_all add: execute_not_found execute_already execute_full execute_booked_silent
          execute_booked_notified)
  have c: "class_of (Error ''Webinar not found'') \<noteq> class_of NoSeatsAvailableException"
    "class_of (Error ''Webinar not found'') \<noteq> class_of AlreadyParticipatingException"
    "message (Error ''Webinar not found'') \<noteq> message NoSeatsAvailableException"
    "message (Error ''Webinar not found'') \<noteq> message AlreadyParticipatingException"
    by simp_all
  show ?thesis
    by (intro conjI) (fact a b c)+
qed

theorem C6_witness:
  "findById (req_webinarId missing_request) fresh_world = None
   \<and> execute missing_request fresh_world = (Inl (Error ''Webinar not found''), fresh_world)"
proof -
  have h: "findById (req_webinarId missing_request) fresh_world = None"
    by (simp add: fixture_defs)
  from C6_not_found_plain_error [of missing_request fresh_world]
  have "findById (req_webinarId missing_request) fresh_world = None \<longrightarrow>
      execute missing_request fresh_world = (Inl (Error ''Webinar not found''), fresh_world)"
    by (rule conjunct1)
  with h show ?thesis by simp
qed

section \<open>The notification\<close>

text \<open>
  C7. On a successful call the participation is saved, and one message is sent exactly
  when the webinar's organizer is found in the user repository: when he is not, the
  outbox is unchanged; when he is, the outbox grows by one message, addressed to him,
  whose subject and body carry the webinar's title. The body reports the remaining
  seats: for a webinar whose seats are a safe integer, the number in the body is the
  decimal numeral of \<open>seats - (participations before the call) - 1\<close>, which is not
  negative.
\<close>

theorem C7_notification:
  assumes "findById (req_webinarId req) s = Some w"
    and "fst (execute req s) = Inr u"
  shows "participations (snd (execute req s)) =
           participations s @ [\<lparr>userId = id_U (user req), webinarId = req_webinarId req\<rparr>]
    \<and> (findUserById (organizerId w) s = None \<longrightarrow> sentEmails (snd (execute req s)) = sentEmails s)
    \<and> (\<forall>organizer. findUserById (organizerId w) s = Some organizer \<longrightarrow>
          (\<exists>m num. sentEmails (snd (execute req s)) = sentEmails s @ [m]
             \<and> to m = email organizer
             \<and> subject m = ''New participant in your webinar: '' @ title w
             \<and> body m = ''A new participant has registered for your webinar \"'' @ title w
                  @ ''\". There are now '' @ num @ '' seats remaining.''
             \<and> (seats w \<le> MAX_SAFE_INTEGER \<longrightarrow>
                   num = string_of_int (seats w - int (length (findByWebinarId (req_webinarId req) s)) - 1)
                   \<and> 0 \<le> seats w - int (length (findByWebinarId (req_webinarId req) s)) - 1
                   \<and> decimal_numeral num
                   \<and> int (decimal_value num)
                       = seats w - int (length (findByWebinarId (req_webinarId req) s)) - 1)))"
proof (cases req s rule: execute_cases)
  case not_found
  then show ?thesis using assms(1) by simp
next
  case (already v)
  then show ?thesis using assms(2) by (simp add: execute_already)
next
  case (full v)
  then show ?thesis using assms(2) by (simp add: execute_full)
next
  case (booked_silent v)
  then have "v = w" using assms(1) by simp
  with booked_silent show ?thesis
    by (simp add: execute_booked_silent save_def)
next
  case (booked_notified v organizer)
  then have vw: "v = w" using assms(1) by simp
  let ?r = "seats w - int (length (findByWebinarId (req_webinarId req) s)) - 1"
  let ?m = "notification organizer w ?r"
  have nonneg: "0 \<le> ?r" using booked_notified(3) vw by simp
  have run: "execute req s =
      (Inr (), send ?m (save \<lparr>userId = id_U (user req), webinarId = req_webinarId req\<rparr> s))"
    using booked_notified vw by (simp add: execute_booked_notified)
  have saved: "participations (snd (execute req s)) =
           participations s @ [\<lparr>userId = id_U (user req), webinarId = req_webinarId req\<rparr>]"
    by (simp add: run save_def send_def)
  have sent: "sentEmails (snd (execute req s)) = sentEmails s @ [?m]"
    by (simp add: run save_def send_def)
  have fields: "to ?m = email organizer"
    "subject ?m = ''New participant in your webinar: '' @ title w"
    "body ?m = ''A new participant has registered for your webinar \"'' @ title w
                  @ ''\". There are now '' @ string_of_int ?r @ '' seats remaining.''"
    by (simp_all add: notification_def)
  have number: "decimal_numeral (string_of_int ?r)" "int (decimal_value (string_of_int ?r)) = ?r"
    using string_of_int_nonneg [OF nonneg] by simp_all
  have "\<exists>m num. sentEmails (snd (execute req s)) = sentEmails s @ [m]
             \<and> to m = email organizer
             \<and> subject m = ''New participant in your webinar: '' @ title w
             \<and> body m = ''A new participant has registered for your webinar \"'' @ title w
                  @ ''\". There are now '' @ num @ '' seats remaining.''
             \<and> (seats w \<le> MAX_SAFE_INTEGER \<longrightarrow>
                   num = string_of_int ?r \<and> 0 \<le> ?r \<and> decimal_numeral num
                   \<and> int (decimal_value num) = ?r)"
    using sent fields number nonneg by blast
  moreover have "findUserById (organizerId w) s = Some organizer"
    using booked_notified(4) vw by simp
  ultimately show ?thesis using saved by simp
qed

theorem C7_witness:
  "findById (req_webinarId test_request) happy_world = Some test_webinar
   \<and> fst (execute test_request happy_world) = Inr ()
   \<and> findUserById (organizerId test_webinar) happy_world = Some test_organizer
   \<and> seats test_webinar \<le> MAX_SAFE_INTEGER
   \<and> sentEmails (snd (execute test_request happy_world)) =
       [\<lparr>to = ''organizer@test.com'',
         subject = ''New participant in your webinar: Test Webinar'',
         body = ''A new participant has registered for your webinar \"Test Webinar\". There are now 1 seats remaining.''\<rparr>]
   \<and> findById (req_webinarId test_request) orphan_world = Some test_webinar
   \<and> fst (execute test_request orphan_world) = Inr ()
   \<and> findUserById (organizerId test_webinar) orphan_world = None
   \<and> sentEmails (snd (execute test_request orphan_world)) = []
   \<and> length (participations (snd (execute test_request orphan_world))) = 1"
proof -
  have h1: "findById (req_webinarId test_request) happy_world = Some test_webinar"
    by (simp add: fixture_defs)
  have ok1: "fst (execute test_request happy_world) = Inr ()"
    by (simp add: scenario_happy_path)
  have org1: "findUserById (organizerId test_webinar) happy_world = Some test_organizer"
    by (simp add: fixture_defs)
  have safe: "seats test_webinar \<le> MAX_SAFE_INTEGER"
    by (simp add: test_webinar_def MAX_SAFE_INTEGER_def)
  have h2: "findById (req_webinarId test_request) orphan_world = Some test_webinar"
    by (simp add: fixture_defs)
  have ok2: "fst (execute test_request orphan_world) = Inr ()"
    by (simp add: scenario_orphan)
  have org2: "findUserById (organizerId test_webinar) orphan_world = None"
    by (simp add: fixture_defs)
  have "\<exists>m num. sentEmails (snd (execute test_request happy_world)) = sentEmails happy_world @ [m]
             \<and> to m = email test_organizer
             \<and> subject m = ''New participant in your webinar: '' @ title test_webinar
             \<and> body m = ''A new participant has registered for your webinar \"'' @ title test_webinar
                  @ ''\". There are now '' @ num @ '' seats remaining.''
             \<and> (seats test_webinar \<le> MAX_SAFE_INTEGER \<longrightarrow>
                   num = string_of_int (seats test_webinar
                          - int (length (findByWebinarId (req_webinarId test_request) happy_world)) - 1)
                   \<and> 0 \<le> seats test_webinar
                          - int (length (findByWebinarId (req_webinarId test_request) happy_world)) - 1
                   \<and> decimal_numeral num
                   \<and> int (decimal_value num)
                       = seats test_webinar
                          - int (length (findByWebinarId (req_webinarId test_request) happy_world)) - 1)"
    using C7_notification [OF h1 ok1] org1 by simp
  then obtain m num where
    sent: "sentEmails (snd (execute test_request happy_world)) = sentEmails happy_world @ [m]"
    and m_to: "to m = email test_organizer"
    and m_subject: "subject m = ''New participant in your webinar: '' @ title test_webinar"
    and m_body: "body m = ''A new participant has registered for your webinar \"'' @ title test_webinar
                  @ ''\". There are now '' @ num @ '' seats remaining.''"
    and num_eq: "seats test_webinar \<le> MAX_SAFE_INTEGER \<longrightarrow>
                   num = string_of_int (seats test_webinar
                          - int (length (findByWebinarId (req_webinarId test_request) happy_world)) - 1)
                   \<and> 0 \<le> seats test_webinar
                          - int (length (findByWebinarId (req_webinarId test_request) happy_world)) - 1
                   \<and> decimal_numeral num
                   \<and> int (decimal_value num)
                       = seats test_webinar
                          - int (length (findByWebinarId (req_webinarId test_request) happy_world)) - 1"
    by (elim exE conjE)
  have "num = string_of_int (seats test_webinar
              - int (length (findByWebinarId (req_webinarId test_request) happy_world)) - 1)"
    using num_eq safe by (elim impE conjE)
  also have "\<dots> = ''1''"
    by (simp add: fixture_defs string_of_int_1)
  finally have one: "num = ''1''" .
  have "m = \<lparr>to = to m, subject = subject m, body = body m\<rparr>" by simp
  also have "\<dots> = \<lparr>to = ''organizer@test.com'',
         subject = ''New participant in your webinar: Test Webinar'',
         body = ''A new participant has registered for your webinar \"Test Webinar\". There are now 1 seats remaining.''\<rparr>"
    by (simp add: m_to m_subject m_body one test_organizer_def test_webinar_def)
  finally have m: "m = \<lparr>to = ''organizer@test.com'',
         subject = ''New participant in your webinar: Test Webinar'',
         body = ''A new participant has registered for your webinar \"Test Webinar\". There are now 1 seats remaining.''\<rparr>" .
  have "sentEmails happy_world = []" by (simp add: fixture_defs)
  with sent m have mail1: "sentEmails (snd (execute test_request happy_world)) =
       [\<lparr>to = ''organizer@test.com'',
         subject = ''New participant in your webinar: Test Webinar'',
         body = ''A new participant has registered for your webinar \"Test Webinar\". There are now 1 seats remaining.''\<rparr>]"
    by simp
  have "sentEmails (snd (execute test_request orphan_world)) = sentEmails orphan_world"
    and "participations (snd (execute test_request orphan_world)) =
           participations orphan_world
             @ [\<lparr>userId = id_U (user test_request), webinarId = req_webinarId test_request\<rparr>]"
    using C7_notification [OF h2 ok2] org2 by simp_all
  moreover have "sentEmails orphan_world = []" "participations orphan_world = []"
    by (simp_all add: fixture_defs)
  ultimately have mail2: "sentEmails (snd (execute test_request orphan_world)) = []"
    and saved2: "length (participations (snd (execute test_request orphan_world))) = 1"
    by simp_all
  show ?thesis
    by (intro conjI) (fact h1 ok1 org1 safe mail1 h2 ok2 org2 mail2 saved2)+
qed

section \<open>The webinar is only read\<close>

text \<open>
  C8. No call of \<open>execute\<close>, whether it succeeds or throws, changes the webinar
  repository: every webinar keeps its seats, title, organizer and participants list,
  and a lookup by id gives what it gave before. In particular a successful booking
  does not put the user in the webinar's own participants list. The same holds for
  every single resumption of a suspended call.
\<close>

theorem C8_webinar_untouched:
  "webinars (snd (execute req s)) = webinars s
   \<and> findById i (snd (execute req s)) = findById i s
   \<and> webinars (snd (resume t s)) = webinars s"
proof -
  have "webinars (snd (resume t s)) = webinars s"
    by (cases "(t, s)" rule: resume.cases) (simp_all add: save_def send_def)
  then show ?thesis
    by (simp add: execute_webinars execute_findById)
qed

section \<open>Available seats\<close>

text \<open>
  C9, as the specification states it, fails: \<open>hasAvailableSeats\<close> takes no registration
  count. For the suite's webinar (two seats, no participants list) it answers true
  while five registrations, say, are not fewer than two seats.
\<close>

theorem C9_counterexample:
  "\<not> (hasAvailableSeats test_webinar \<longleftrightarrow> (5::int) < seats test_webinar)"
  by (simp add: hasAvailableSeats_def participants_or_empty_def test_webinar_def)

text \<open>
  C9, amended. \<open>hasAvailableSeats\<close> takes no argument: it is true exactly when the
  length of the webinar's own participants list (empty when the list is absent) is
  strictly less than the webinar's seats, that is, when \<open>getRemainingSeats\<close> is positive.
\<close>

theorem C9_hasAvailableSeats:
  "hasAvailableSeats w =
     (case participants w of None \<Rightarrow> 0 < seats w | Some ps \<Rightarrow> int (length ps) < seats w)
   \<and> hasAvailableSeats w = (0 < getRemainingSeats w)"
  by (simp add: hasAvailableSeats_def getRemainingSeats_def participants_or_empty_def
      split: option.split)

section \<open>Adding a participant\<close>

text \<open>
  C10. \<open>addParticipant\<close> appends the user id to the webinar's participants list whatever
  the list holds: the list grows by exactly one and nothing else of the webinar
  changes. Neither membership nor the remaining seats are looked at, so a user already
  in the list is added again. \<open>getRemainingSeats\<close> drops by exactly one, also at zero and
  below, as long as the seats and the new remainder are safe integers.
\<close>

theorem C10_addParticipant:
  "participants_or_empty (addParticipant u w) = participants_or_empty w @ [u]
   \<and> length (participants_or_empty (addParticipant u w)) = length (participants_or_empty w) + 1
   \<and> seats (addParticipant u w) = seats w
   \<and> count_list (participants_or_empty (addParticipant u w)) u
       = count_list (participants_or_empty w) u + 1
   \<and> (isSafeInteger (seats w)
        \<and> isSafeInteger (seats w - int (length (participants_or_empty w)) - 1)
      \<longrightarrow> getRemainingSeats (addParticipant u w) = getRemainingSeats w - 1)"
  by (simp add: addParticipant_def update_participants_def participants_or_empty_def
      getRemainingSeats_def)

theorem C10_witness:
  "isSafeInteger (seats crowded_webinar)
   \<and> isSafeInteger (seats crowded_webinar - int (length (participants_or_empty crowded_webinar)) - 1)
   \<and> ''user-1'' \<in> set (participants_or_empty crowded_webinar)
   \<and> getRemainingSeats crowded_webinar = 0
   \<and> getRemainingSeats (addParticipant ''user-1'' crowded_webinar) = - 1
   \<and> participants_or_empty (addParticipant ''user-1'' crowded_webinar) = [''user-1'', ''user-1'']"
proof -
  have list: "participants_or_empty crowded_webinar = [''user-1'']"
    and seats: "seats crowded_webinar = 1"
    by (simp_all add: crowded_webinar_def test_webinar_def participants_or_empty_def)
  have safe1: "isSafeInteger (seats crowded_webinar)"
    and safe2: "isSafeInteger (seats crowded_webinar
                  - int (length (participants_or_empty crowded_webinar)) - 1)"
    by (simp_all add: list seats isSafeInteger_def MAX_SAFE_INTEGER_def)
  have zero: "getRemainingSeats crowded_webinar = 0"
    by (simp add: getRemainingSeats_def list seats)
  note after = C10_addParticipant [of "''user-1''" crowded_webinar]
  have drop: "getRemainingSeats (addParticipant ''user-1'' crowded_webinar) = - 1"
    using after safe1 safe2 zero by simp
  have twice: "participants_or_empty (addParticipant ''user-1'' crowded_webinar) = [''user-1'', ''user-1'']"
    using after list by simp
  have member: "''user-1'' \<in> set (participants_or_empty crowded_webinar)"
    by (simp add: list)
  show ?thesis
    by (intro conjI) (fact safe1 safe2 member zero drop twice)+
qed

lemma addParticipant_twice_when_full:
  "participants_or_empty (addParticipant ''user-1'' (addParticipant ''user-1'' (test_webinar\<lparr>seats := 1\<rparr>)))
     = [''user-1'', ''user-1'']
   \<and> getRemainingSeats (addParticipant ''user-1'' (addParticipant ''user-1'' (test_webinar\<lparr>seats := 1\<rparr>))) = - 1"
  by (simp add: addParticipant_def update_participants_def participants_or_empty_def
      getRemainingSeats_def test_webinar_def)

section \<open>Calls made one after the other\<close>

lemma findByWebinarId_execute_failed:
  "fst (execute req s) = Inl e \<Longrightarrow> findByWebinarId i (snd (execute req s)) = findByWebinarId i s"
  by (simp add: execute_failure_unchanged)

lemma findByWebinarId_execute_booked:
  "fst (execute req s) = Inr u \<Longrightarrow>
   findByWebinarId i (snd (execute req s)) =
     findByWebinarId i s
       @ (if req_webinarId req = i then [\<lparr>userId = id_U (user req), webinarId = req_webinarId req\<rparr>] else [])"
  by (simp add: findByWebinarId_def execute_success_participations)

lemma execute_outcome:
  "(\<exists>e. fst (execute req s) = Inl e) \<or> fst (execute req s) = Inr ()"
  by (cases "fst (execute req s)") auto

lemma run_count:
  assumes "findById wid s = Some w"
    and "\<forall>r \<in> set rs. req_webinarId r = wid"
    and "distinct (map (\<lambda>r. id_U (user r)) rs)"
    and "\<forall>r \<in> set rs. \<forall>p \<in> set (findByWebinarId wid s). userId p \<noteq> id_U (user r)"
  shows "int (length (findByWebinarId wid (run rs s))) =
           max (int (length (findByWebinarId wid s)))
               (min (seats w) (int (length (findByWebinarId wid s)) + int (length rs)))"
  using assms
proof (induction rs arbitrary: s)
  case Nil
  then show ?case by simp
next
  case (Cons r rs)
  let ?s1 = "snd (execute r s)"
  have wid: "req_webinarId r = wid" using Cons.prems(2) by simp
  have found: "findById (req_webinarId r) s = Some w" using Cons.prems(1) wid by simp
  have fresh: "\<not> (\<exists>p \<in> set (findByWebinarId (req_webinarId r) s). userId p = id_U (user r))"
    using Cons.prems(4) wid by auto
  have found1: "findById wid ?s1 = Some w"
    using Cons.prems(1) by (simp add: execute_findById)
  have all1: "\<forall>r \<in> set rs. req_webinarId r = wid" using Cons.prems(2) by simp
  have dist1: "distinct (map (\<lambda>r. id_U (user r)) rs)" using Cons.prems(3) by simp
  have others: "\<forall>q \<in> set rs. id_U (user q) \<noteq> id_U (user r)"
    using Cons.prems(3) by (force simp add: image_iff)
  show ?case
  proof (cases "seats w \<le> int (length (findByWebinarId wid s))")
    case True
    then have "execute r s = (Inl NoSeatsAvailableException, s)"
      using found fresh wid by (simp add: execute_full)
    then have same: "?s1 = s" by simp
    have "int (length (findByWebinarId wid (run rs s))) =
           max (int (length (findByWebinarId wid s)))
               (min (seats w) (int (length (findByWebinarId wid s)) + int (length rs)))"
      using Cons.IH [of s] Cons.prems(1) all1 dist1 Cons.prems(4) by simp
    then show ?thesis using True same by simp
  next
    case False
    then have room: "int (length (findByWebinarId (req_webinarId r) s)) < seats w"
      using wid by simp
    have "\<exists>u. fst (execute r s) = Inr u"
      using execute_success_iff [OF found] fresh room by simp
    then obtain u where ok: "fst (execute r s) = Inr u" ..
    have ps1: "findByWebinarId wid ?s1 =
                 findByWebinarId wid s @ [\<lparr>userId = id_U (user r), webinarId = req_webinarId r\<rparr>]"
      using findByWebinarId_execute_booked [OF ok, of wid] wid by simp
    have fresh1: "\<forall>q \<in> set rs. \<forall>p \<in> set (findByWebinarId wid ?s1). userId p \<noteq> id_U (user q)"
      using Cons.prems(4) others by (auto simp add: ps1)
    have "int (length (findByWebinarId wid (run rs ?s1))) =
           max (int (length (findByWebinarId wid ?s1)))
               (min (seats w) (int (length (findByWebinarId wid ?s1)) + int (length rs)))"
      using Cons.IH [of ?s1] found1 all1 dist1 fresh1 by simp
    then show ?thesis using False by (simp add: ps1)
  qed
qed


text \<open>
  C1. Take a webinar with \<open>S\<close> seats (a capacity, so not negative) and no participation
  yet. After any finite sequence of calls of \<open>execute\<close> for that webinar, made one after
  the other by users with distinct ids, the number of participations saved for the
  webinar is the minimum of \<open>S\<close> and the number of calls; in particular it is at most \<open>S\<close>.
\<close>

theorem C1_capacity_sequential:
  assumes "findById wid s = Some w"
    and "0 \<le> seats w"
    and "findByWebinarId wid s = []"
    and "\<forall>r \<in> set rs. req_webinarId r = wid"
    and "distinct (map (\<lambda>r. id_U (user r)) rs)"
  shows "int (length (findByWebinarId wid (run rs s))) = min (seats w) (int (length rs))
    \<and> int (length (findByWebinarId wid (run rs s))) \<le> seats w"
proof -
  have "\<forall>r \<in> set rs. \<forall>p \<in> set (findByWebinarId wid s). userId p \<noteq> id_U (user r)"
    using assms(3) by simp
  from run_count [OF assms(1) assms(4) assms(5) this]
  have "int (length (findByWebinarId wid (run rs s))) = max 0 (min (seats w) (int (length rs)))"
    using assms(3) by simp
  then show ?thesis using assms(2) by simp
qed

theorem C1_witness:
  "findById ''webinar-1'' happy_world = Some test_webinar
   \<and> seats test_webinar = 2
   \<and> findByWebinarId ''webinar-1'' happy_world = []
   \<and> distinct (map (\<lambda>r. id_U (user r)) [test_request, second_request, third_request])
   \<and> length (findByWebinarId ''webinar-1'' (run [test_request, second_request, third_request] happy_world)) = 2"
proof -
  have h1: "findById ''webinar-1'' happy_world = Some test_webinar"
    by (simp add: fixture_defs)
  have h2: "0 \<le> seats test_webinar" and s2: "seats test_webinar = 2"
    by (simp_all add: test_webinar_def)
  have h3: "findByWebinarId ''webinar-1'' happy_world = []"
    by (simp add: fixture_defs)
  have h4: "\<forall>r \<in> set [test_request, second_request, third_request]. req_webinarId r = ''webinar-1''"
    by (simp add: fixture_defs)
  have h5: "distinct (map (\<lambda>r. id_U (user r)) [test_request, second_request, third_request])"
    by (simp add: fixture_defs)
  from C1_capacity_sequential [OF h1 h2 h3 h4 h5]
  have "int (length (findByWebinarId ''webinar-1''
          (run [test_request, second_request, third_request] happy_world))) = min 2 3"
    by (simp add: s2)
  then have "length (findByWebinarId ''webinar-1''
          (run [test_request, second_request, third_request] happy_world)) = 2"
    by simp
  with h1 s2 h3 h5 show ?thesis by simp
qed

section \<open>The same call, repeated\<close>

lemma registrations_of_execute_failed:
  "fst (execute req s) = Inl e \<Longrightarrow>
   registrations_of i u (snd (execute req s)) = registrations_of i u s"
  by (simp add: execute_failure_unchanged)

lemma registrations_of_execute_booked:
  assumes "fst (execute req s) = Inr u"
  shows "registrations_of (req_webinarId req) (id_U (user req)) s = []"
    and "registrations_of (req_webinarId req) (id_U (user req)) (snd (execute req s)) =
           [\<lparr>userId = id_U (user req), webinarId = req_webinarId req\<rparr>]"
proof -
  obtain w where found: "findById (req_webinarId req) s = Some w"
    using assms by (cases "findById (req_webinarId req) s") (simp_all add: execute_not_found)
  have "\<not> (\<exists>p \<in> set (findByWebinarId (req_webinarId req) s). userId p = id_U (user req))"
    using execute_success_iff [OF found] assms by blast
  then show none: "registrations_of (req_webinarId req) (id_U (user req)) s = []"
    by (auto simp add: registrations_of_def filter_empty_conv)
  show "registrations_of (req_webinarId req) (id_U (user req)) (snd (execute req s)) =
           [\<lparr>userId = id_U (user req), webinarId = req_webinarId req\<rparr>]"
    using none findByWebinarId_execute_booked [OF assms, of "req_webinarId req"]
    by (simp add: registrations_of_def)
qed

lemma attempts_at_most_one:
  "length (registrations_of (req_webinarId req) (id_U (user req)) s) \<le> 1 \<Longrightarrow>
   length (registrations_of (req_webinarId req) (id_U (user req)) (snd (attempts n req s))) \<le> 1"
proof (induction n arbitrary: s)
  case 0
  then show ?case by simp
next
  case (Suc n)
  have step: "length (registrations_of (req_webinarId req) (id_U (user req)) (snd (execute req s))) \<le> 1"
  proof (cases "fst (execute req s)")
    case (Inl e)
    then show ?thesis using Suc.prems by (simp add: registrations_of_execute_failed)
  next
    case (Inr u)
    then show ?thesis by (simp add: registrations_of_execute_booked(2))
  qed
  have "snd (attempts (Suc n) req s) = snd (attempts n req (snd (execute req s)))"
    by (simp add: split_beta Let_def)
  then show ?case using Suc.IH [OF step] by simp
qed

lemma attempts_when_registered:
  assumes "findById (req_webinarId req) s = Some w"
    and "registrations_of (req_webinarId req) (id_U (user req)) s \<noteq> []"
  shows "attempts n req s = (replicate n (Inl AlreadyParticipatingException), s)"
proof -
  have "\<exists>p \<in> set (findByWebinarId (req_webinarId req) s). userId p = id_U (user req)"
    using assms(2) by (auto simp add: registrations_of_def filter_empty_conv)
  then have "execute req s = (Inl AlreadyParticipatingException, s)"
    using assms(1) by (rule execute_already [rotated])
  then show ?thesis by (induction n) simp_all
qed


lemma attempts_consume_at_most_one:
  "length (findByWebinarId i (snd (attempts n req s))) \<le> length (findByWebinarId i s) + 1"
proof (induction n arbitrary: s)
  case 0
  then show ?case by simp
next
  case (Suc n)
  have step: "snd (attempts (Suc n) req s) = snd (attempts n req (snd (execute req s)))"
    by (simp add: split_beta Let_def)
  show ?case
  proof (cases "fst (execute req s)")
    case (Inl e)
    then have "snd (execute req s) = s" by (rule execute_failure_unchanged)
    then show ?thesis using Suc.IH [of s] step by simp
  next
    case (Inr u)
    let ?s1 = "snd (execute req s)"
    obtain v where found: "findById (req_webinarId req) s = Some v"
      using Inr by (cases "findById (req_webinarId req) s") (simp_all add: execute_not_found)
    have found1: "findById (req_webinarId req) ?s1 = Some v"
      using found by (simp add: execute_findById)
    have "registrations_of (req_webinarId req) (id_U (user req)) ?s1 \<noteq> []"
      using registrations_of_execute_booked(2) [OF Inr] by simp
    with found1 have "attempts n req ?s1 = (replicate n (Inl AlreadyParticipatingException), ?s1)"
      by (rule attempts_when_registered)
    then have "snd (attempts (Suc n) req s) = ?s1" using step by simp
    then show ?thesis using findByWebinarId_execute_booked [OF Inr, of i] by simp
  qed
qed

text \<open>
  C3, as the specification states it, fails: a repeated call does not always throw
  \<open>AlreadyParticipatingException\<close>. In the suite's full webinar the test user holds no
  participation; the first call and its repeat both throw \<open>NoSeatsAvailableException\<close>.
\<close>

theorem C3_counterexample:
  "registrations_of ''webinar-1'' ''user-1'' full_world = []
   \<and> attempts 2 test_request full_world
       = ([Inl NoSeatsAvailableException, Inl NoSeatsAvailableException], full_world)
   \<and> fst (attempts 2 test_request full_world) ! 1 \<noteq> Inl AlreadyParticipatingException"
proof -
  have two: "(2::nat) = Suc (Suc 0)" by simp
  have a: "registrations_of ''webinar-1'' ''user-1'' full_world = []"
    by (simp add: registrations_of_def fixture_defs)
  have b: "attempts 2 test_request full_world
       = ([Inl NoSeatsAvailableException, Inl NoSeatsAvailableException], full_world)"
    unfolding two by (simp add: scenario_no_seats)
  have c: "fst (attempts 2 test_request full_world) ! 1 \<noteq> Inl AlreadyParticipatingException"
    by (simp add: b)
  show ?thesis
    by (intro conjI) (fact a b c)+
qed

text \<open>
  C3, amended. Start from a state with at most one participation for the pair
  (webinar, user). However many times \<open>execute\<close> is then called, one call after the
  other, for that pair, at most one participation exists for it afterwards, and all
  the calls together add at most one participation to the webinar. Every call made
  while the webinar exists and the user holds a participation in it throws
  \<open>AlreadyParticipatingException\<close> and leaves the state as it is: once one call has
  succeeded, all the later ones fail so, the pair keeps its single participation and
  the webinar has exactly one participation more than at the start. What a repeated
  call throws while the user holds no participation is not part of the statement.
\<close>

theorem C3_duplicate_sequential:
  assumes "length (registrations_of (req_webinarId req) (id_U (user req)) s) \<le> 1"
  shows "length (registrations_of (req_webinarId req) (id_U (user req)) (snd (attempts n req s))) \<le> 1
    \<and> (findById (req_webinarId req) s = Some w
         \<and> registrations_of (req_webinarId req) (id_U (user req)) s \<noteq> []
       \<longrightarrow> attempts n req s = (replicate n (Inl AlreadyParticipatingException), s))
    \<and> (fst (execute req s) = Inr ()
       \<longrightarrow> attempts (Suc n) req s
             = (Inr () # replicate n (Inl AlreadyParticipatingException), snd (execute req s))
           \<and> registrations_of (req_webinarId req) (id_U (user req)) (snd (attempts (Suc n) req s))
             = [\<lparr>userId = id_U (user req), webinarId = req_webinarId req\<rparr>]
           \<and> length (findByWebinarId (req_webinarId req) (snd (attempts (Suc n) req s)))
             = length (findByWebinarId (req_webinarId req) s) + 1)
    \<and> length (findByWebinarId (req_webinarId req) (snd (attempts n req s)))
        \<le> length (findByWebinarId (req_webinarId req) s) + 1"
proof -
  have a: "length (registrations_of (req_webinarId req) (id_U (user req)) (snd (attempts n req s))) \<le> 1"
    using assms by (rule attempts_at_most_one)
  have b: "findById (req_webinarId req) s = Some w
         \<and> registrations_of (req_webinarId req) (id_U (user req)) s \<noteq> []
       \<longrightarrow> attempts n req s = (replicate n (Inl AlreadyParticipatingException), s)"
    by (simp add: attempts_when_registered)
  have c: "fst (execute req s) = Inr ()
       \<longrightarrow> attempts (Suc n) req s
             = (Inr () # replicate n (Inl AlreadyParticipatingException), snd (execute req s))
           \<and> registrations_of (req_webinarId req) (id_U (user req)) (snd (attempts (Suc n) req s))
             = [\<lparr>userId = id_U (user req), webinarId = req_webinarId req\<rparr>]
           \<and> length (findByWebinarId (req_webinarId req) (snd (attempts (Suc n) req s)))
             = length (findByWebinarId (req_webinarId req) s) + 1"
  proof
    assume ok: "fst (execute req s) = Inr ()"
    let ?s1 = "snd (execute req s)"
    obtain v where found: "findById (req_webinarId req) s = Some v"
      using ok by (cases "findById (req_webinarId req) s") (simp_all add: execute_not_found)
    have found1: "findById (req_webinarId req) ?s1 = Some v"
      using found by (simp add: execute_findById)
    have reg1: "registrations_of (req_webinarId req) (id_U (user req)) ?s1
                  = [\<lparr>userId = id_U (user req), webinarId = req_webinarId req\<rparr>]"
      using ok by (rule registrations_of_execute_booked(2))
    then have "registrations_of (req_webinarId req) (id_U (user req)) ?s1 \<noteq> []" by simp
    with found1 have rest: "attempts n req ?s1 = (replicate n (Inl AlreadyParticipatingException), ?s1)"
      by (rule attempts_when_registered)
    have all: "attempts (Suc n) req s
             = (Inr () # replicate n (Inl AlreadyParticipatingException), ?s1)"
      using ok rest by (simp add: split_beta Let_def)
    have count: "length (findByWebinarId (req_webinarId req) ?s1)
             = length (findByWebinarId (req_webinarId req) s) + 1"
      using findByWebinarId_execute_booked [OF ok, of "req_webinarId req"] by simp
    show "attempts (Suc n) req s
             = (Inr () # replicate n (Inl AlreadyParticipatingException), snd (execute req s))
           \<and> registrations_of (req_webinarId req) (id_U (user req)) (snd (attempts (Suc n) req s))
             = [\<lparr>userId = id_U (user req), webinarId = req_webinarId req\<rparr>]
           \<and> length (findByWebinarId (req_webinarId req) (snd (attempts (Suc n) req s)))
             = length (findByWebinarId (req_webinarId req) s) + 1"
      using all reg1 count by simp
  qed
  have d: "length (findByWebinarId (req_webinarId req) (snd (attempts n req s)))
        \<le> length (findByWebinarId (req_webinarId req) s) + 1"
    by (rule attempts_consume_at_most_one)
  show ?thesis
    by (intro conjI) (fact a b c d)+
qed

theorem C3_witness:
  "length (registrations_of (req_webinarId test_request) (id_U (user test_request)) happy_world) \<le> 1
   \<and> fst (execute test_request happy_world) = Inr ()
   \<and> fst (attempts 3 test_request happy_world)
       = [Inr (), Inl AlreadyParticipatingException, Inl AlreadyParticipatingException]
   \<and> length (registrations_of ''webinar-1'' ''user-1'' (snd (attempts 3 test_request happy_world))) = 1
   \<and> length (findByWebinarId ''webinar-1'' (snd (attempts 3 test_request happy_world))) = 1
   \<and> findById (req_webinarId test_request) already_world = Some test_webinar
   \<and> attempts 2 test_request already_world
       = ([Inl AlreadyParticipatingException, Inl AlreadyParticipatingException], already_world)"
proof -
  have h: "length (registrations_of (req_webinarId test_request) (id_U (user test_request)) happy_world) \<le> 1"
    by (simp add: registrations_of_def fixture_defs)
  have ok: "fst (execute test_request happy_world) = Inr ()"
    by (simp add: scenario_happy_path)
  have ids: "req_webinarId test_request = ''webinar-1''" "id_U (user test_request) = ''user-1''"
    by (simp_all add: fixture_defs)
  have none: "length (findByWebinarId ''webinar-1'' happy_world) = 0"
    by (simp add: fixture_defs)
  have three: "(3::nat) = Suc 2" by simp
  have twice: "replicate 2 (Inl AlreadyParticipatingException :: exn + unit)
                 = [Inl AlreadyParticipatingException, Inl AlreadyParticipatingException]"
    by (simp add: numeral_2_eq_2)
  have imp: "fst (execute test_request happy_world) = Inr ()
       \<longrightarrow> attempts (Suc 2) test_request happy_world
             = (Inr () # replicate 2 (Inl AlreadyParticipatingException), snd (execute test_request happy_world))
           \<and> registrations_of (req_webinarId test_request) (id_U (user test_request))
               (snd (attempts (Suc 2) test_request happy_world))
             = [\<lparr>userId = id_U (user test_request), webinarId = req_webinarId test_request\<rparr>]
           \<and> length (findByWebinarId (req_webinarId test_request) (snd (attempts (Suc 2) test_request happy_world)))
             = length (findByWebinarId (req_webinarId test_request) happy_world) + 1"
    using C3_duplicate_sequential [OF h, of 2 test_webinar] by (elim conjE)
  note after = mp [OF imp ok]
  have "fst (attempts (Suc 2) test_request happy_world)
       = [Inr (), Inl AlreadyParticipatingException, Inl AlreadyParticipatingException]"
    by (simp only: conjunct1 [OF after] fst_conv twice)
  moreover have "length (registrations_of ''webinar-1'' ''user-1'' (snd (attempts (Suc 2) test_request happy_world))) = 1"
    using conjunct1 [OF conjunct2 [OF after]] by (simp add: ids del: attempts.simps)
  moreover have "length (findByWebinarId ''webinar-1'' (snd (attempts (Suc 2) test_request happy_world))) = 1"
    using conjunct2 [OF conjunct2 [OF after]] none by (simp add: ids del: attempts.simps)
  ultimately have first:
    "fst (attempts 3 test_request happy_world)
       = [Inr (), Inl AlreadyParticipatingException, Inl AlreadyParticipatingException]"
    "length (registrations_of ''webinar-1'' ''user-1'' (snd (attempts 3 test_request happy_world))) = 1"
    "length (findByWebinarId ''webinar-1'' (snd (attempts 3 test_request happy_world))) = 1"
    by (simp_all only: three)
  have h2: "length (registrations_of (req_webinarId test_request) (id_U (user test_request)) already_world) \<le> 1"
    by (simp add: registrations_of_def fixture_defs)
  have found2: "findById (req_webinarId test_request) already_world = Some test_webinar"
    by (simp add: fixture_defs)
  have reg2: "registrations_of (req_webinarId test_request) (id_U (user test_request)) already_world \<noteq> []"
    by (simp add: registrations_of_def fixture_defs)
  have "findById (req_webinarId test_request) already_world = Some test_webinar
         \<and> registrations_of (req_webinarId test_request) (id_U (user test_request)) already_world \<noteq> []
       \<longrightarrow> attempts 2 test_request already_world
             = (replicate 2 (Inl AlreadyParticipatingException), already_world)"
    using C3_duplicate_sequential [OF h2, of 2 test_webinar] by (elim conjE)
  with found2 reg2 have second: "attempts 2 test_request already_world
       = ([Inl AlreadyParticipatingException, Inl AlreadyParticipatingException], already_world)"
    by (simp add: numeral_2_eq_2)
  show ?thesis
    by (intro conjI) (fact h ok first found2 second)+
qed

section \<open>Calls made together\<close>

lemma race_capacity:
  "interleave alternate [Called test_request, Called second_request] single_seat_world =
     ([Settled (Inr ()), Settled (Inr ())],
      single_seat_world\<lparr>participations :=
          [\<lparr>userId = ''user-1'', webinarId = ''webinar-1''\<rparr>,
           \<lparr>userId = ''user-2'', webinarId = ''webinar-1''\<rparr>],
        sentEmails :=
          [notification test_organizer (test_webinar\<lparr>seats := 1\<rparr>) 0,
           notification test_organizer (test_webinar\<lparr>seats := 1\<rparr>) 0]\<rparr>)"
  by (simp add: alternate_def fixture_defs)

lemma race_duplicate:
  "interleave alternate [Called test_request, Called test_request] happy_world =
     ([Settled (Inr ()), Settled (Inr ())],
      happy_world\<lparr>participations :=
          [\<lparr>userId = ''user-1'', webinarId = ''webinar-1''\<rparr>,
           \<lparr>userId = ''user-1'', webinarId = ''webinar-1''\<rparr>],
        sentEmails :=
          [notification test_organizer test_webinar 1,
           notification test_organizer test_webinar 1]\<rparr>)"
  by (simp add: alternate_def fixture_defs)

text \<open>
  A schedule that finishes the first call before it starts the second gives what two
  calls of \<open>execute\<close> in a row give: the second one finds the webinar full.
\<close>

lemma serial_schedule:
  "interleave [0, 0, 0, 0, 0, 0, 1, 1, 1, 1, 1, 1]
     [Called test_request, Called second_request] single_seat_world =
     ([Settled (Inr ()), Settled (Inl NoSeatsAvailableException)],
      snd (execute second_request (snd (execute test_request single_seat_world))))"
  by (simp add: execute_def fixture_defs)

lemma serial_first_then_second:
  "execute second_request (snd (execute test_request single_seat_world)) =
     (Inl NoSeatsAvailableException, snd (execute test_request single_seat_world))"
  by (simp add: execute_def fixture_defs)

lemma serial_second_then_first:
  "execute test_request (snd (execute second_request single_seat_world)) =
     (Inl NoSeatsAvailableException, snd (execute second_request single_seat_world))"
  by (simp add: execute_def fixture_defs)

text \<open>
  C2, evaluated on the code. Two calls for a webinar with one seat are made together
  by two users and resumed in turn at their \<open>await\<close>s. Both read the list of
  participations before either saves, both pass the two checks, and both save: the
  webinar ends with two participations for one seat, and both promises are fulfilled,
  whereas in either sequential order the second call throws
  \<open>NoSeatsAvailableException\<close>. The same schedule with the same user calling twice
  leaves two participations for one (webinar, user) pair.
\<close>

theorem C2_interleaved_overbooking:
  "fst (interleave alternate [Called test_request, Called second_request] single_seat_world)
     = [Settled (Inr ()), Settled (Inr ())]
   \<and> findByWebinarId ''webinar-1''
       (snd (interleave alternate [Called test_request, Called second_request] single_seat_world))
     = [\<lparr>userId = ''user-1'', webinarId = ''webinar-1''\<rparr>,
        \<lparr>userId = ''user-2'', webinarId = ''webinar-1''\<rparr>]
   \<and> map_option seats (findById ''webinar-1''
       (snd (interleave alternate [Called test_request, Called second_request] single_seat_world)))
     = Some 1
   \<and> fst (execute second_request (snd (execute test_request single_seat_world)))
     = Inl NoSeatsAvailableException
   \<and> fst (execute test_request (snd (execute second_request single_seat_world)))
     = Inl NoSeatsAvailableException
   \<and> registrations_of ''webinar-1'' ''user-1''
       (snd (interleave alternate [Called test_request, Called test_request] happy_world))
     = [\<lparr>userId = ''user-1'', webinarId = ''webinar-1''\<rparr>,
        \<lparr>userId = ''user-1'', webinarId = ''webinar-1''\<rparr>]"
proof -
  have a: "fst (interleave alternate [Called test_request, Called second_request] single_seat_world)
     = [Settled (Inr ()), Settled (Inr ())]"
    by (simp add: race_capacity)
  have b: "findByWebinarId ''webinar-1''
       (snd (interleave alternate [Called test_request, Called second_request] single_seat_world))
     = [\<lparr>userId = ''user-1'', webinarId = ''webinar-1''\<rparr>,
        \<lparr>userId = ''user-2'', webinarId = ''webinar-1''\<rparr>]"
    by (simp add: race_capacity findByWebinarId_def)
  have c: "map_option seats (findById ''webinar-1''
       (snd (interleave alternate [Called test_request, Called second_request] single_seat_world)))
     = Some 1"
    by (simp add: race_capacity) (simp add: fixture_defs)
  have d: "fst (execute second_request (snd (execute test_request single_seat_world)))
     = Inl NoSeatsAvailableException"
    by (simp add: serial_first_then_second)
  have e: "fst (execute test_request (snd (execute second_request single_seat_world)))
     = Inl NoSeatsAvailableException"
    by (simp add: serial_second_then_first)
  have f: "registrations_of ''webinar-1'' ''user-1''
       (snd (interleave alternate [Called test_request, Called test_request] happy_world))
     = [\<lparr>userId = ''user-1'', webinarId = ''webinar-1''\<rparr>,
        \<lparr>userId = ''user-1'', webinarId = ''webinar-1''\<rparr>]"
    by (simp add: race_duplicate registrations_of_def findByWebinarId_def)
  show ?thesis
    by (intro conjI) (fact a b c d e f)+
qed

lemma string_of_int_examples:
  "string_of_int 42 = ''42''" "string_of_int (- 7) = ''-7''" "string_of_int 1000 = ''1000''"
  by (simp_all add: string_of_int_def digits.simps)

end
